theory Spec2Isabelle
  imports Main "HOL-Library.Word"
begin

section \<open>The interactive client of \<open>websockets/__main__.py\<close>\<close>

text \<open>
  The module has two threads of control.  The main thread (\<open>main\<close>) parses the command
  line, connects, starts the receiver thread and then reads lines from standard input and
  sends them.  The receiver thread (\<open>print_incoming_messages\<close>) iterates over the
  connection and prints every incoming message above the prompt.

  Every function is modelled by the list of effects it performs, in program order, together
  with the way it ends.  What the collaborators that are not part of the module answer
  (\<open>input\<close>, \<open>connect\<close>, \<open>send\<close>, \<open>close\<close>, the iteration over the connection, the state
  of the \<open>threading.Event\<close> when it is read) is an argument of the model.
\<close>

subsection \<open>Data\<close>

datatype py_stream = Stdout | Stderr

datatype signal = SIGINT | CTRL_C_EVENT

text \<open>The exceptions the module raises or catches by name; any other one is \<open>OtherError\<close>.\<close>

datatype exn = KeyboardInterrupt | EOFError | AssertionError | OtherError string

text \<open>An item of the iteration over the connection: a \<open>str\<close> or a \<open>bytes\<close>.\<close>

type_synonym bytes = "8 word list"

datatype message = Text string | Binary bytes

text \<open>The observable effects of both threads.\<close>

datatype event =
    Write py_stream string  \<comment> \<open>\<open>stream.write(s)\<close>\<close>
  | Flush py_stream         \<comment> \<open>\<open>stream.flush()\<close>\<close>
  | Input string            \<comment> \<open>\<open>input(prompt)\<close> is called\<close>
  | Send string             \<comment> \<open>\<open>websocket.send(message)\<close> is called\<close>
  | Connect string          \<comment> \<open>\<open>connect(uri)\<close> is called\<close>
  | ParserError string      \<comment> \<open>\<open>parser.error(message)\<close> is called\<close>
  | ThreadStart             \<comment> \<open>\<open>thread.start()\<close>\<close>
  | ThreadJoin              \<comment> \<open>\<open>thread.join()\<close>\<close>
  | StopSet                 \<comment> \<open>\<open>stop.set()\<close>\<close>
  | IsSet bool              \<comment> \<open>\<open>stop.is_set()\<close> is evaluated and returns the value\<close>
  | CloseCall               \<comment> \<open>\<open>websocket.close()\<close> is called\<close>
  | Kill signal             \<comment> \<open>\<open>os.kill(os.getpid(), signal)\<close>\<close>

definition ESC :: char where
  "ESC = CHR 0x1B"

definition LF :: char where
  "LF = CHR 0x0A"

definition CR :: char where
  "CR = CHR 0x0D"

subsection \<open>The terminal printer\<close>

definition print_during_input :: "string \<Rightarrow> event list" where
  "print_during_input string =
     [Write Stdout
        ([ESC, CHR ''7'']
         @ [LF]
         @ ESC # ''[A''
         @ ESC # ''[L''
         @ string @ [LF]
         @ [ESC, CHR ''8'']
         @ ESC # ''[B''),
      Flush Stdout]"

definition print_over_input :: "string \<Rightarrow> event list" where
  "print_over_input string =
     [Write Stdout
        ([CR]
         @ ESC # ''[K''
         @ string @ [LF]),
      Flush Stdout]"

text \<open>
  The operations of the terminal as the specification names them, and the control
  sequences of a VT100 terminal that stand for them (the comments of the source name the
  same operations).
\<close>

datatype term_op =
    SaveCursor | RestoreCursor | CursorUp | CursorDown | InsertLine
  | CarriageReturn | EraseLine | NewLine | PrintText string

fun vt100 :: "term_op \<Rightarrow> string" where
  "vt100 SaveCursor = [ESC, CHR ''7'']"
| "vt100 RestoreCursor = [ESC, CHR ''8'']"
| "vt100 CursorUp = [ESC, CHR ''['', CHR ''A'']"
| "vt100 CursorDown = [ESC, CHR ''['', CHR ''B'']"
| "vt100 InsertLine = [ESC, CHR ''['', CHR ''L'']"
| "vt100 CarriageReturn = [CR]"
| "vt100 EraseLine = [ESC, CHR ''['', CHR ''K'']"
| "vt100 NewLine = [LF]"
| "vt100 (PrintText s) = s"

text \<open>The specification's \<open>insert_above_prompt\<close>, steps (a) to (g), in its words.\<close>

definition insert_above_prompt_spec :: "string \<Rightarrow> term_op list" where
  "insert_above_prompt_spec text =
     [SaveCursor, NewLine, CursorUp, InsertLine, PrintText text, NewLine,
      RestoreCursor, CursorDown]"

text \<open>The specification's \<open>replace_prompt\<close>, in its words.\<close>

definition replace_prompt_spec :: "string \<Rightarrow> term_op list" where
  "replace_prompt_spec text = [CarriageReturn, EraseLine, PrintText text, NewLine]"

subsection \<open>The receiver loop\<close>

text \<open>\<open>bytes.hex()\<close>: two lower-case hexadecimal digits for every byte.\<close>

definition hexdigit :: "nat \<Rightarrow> char" where
  "hexdigit n = ''0123456789abcdef'' ! n"

definition hex_byte :: "8 word \<Rightarrow> string" where
  "hex_byte b = [hexdigit (unat b div 16), hexdigit (unat b mod 16)]"

definition hex :: "bytes \<Rightarrow> string" where
  "hex bs = concat (map hex_byte bs)"

text \<open>The body of the \<open>for\<close> loop, for one message.\<close>

fun print_message :: "message \<Rightarrow> event list" where
  "print_message (Text s) = print_during_input (''< '' @ s)"
| "print_message (Binary b) = print_during_input (''< (binary) '' @ hex b)"

text \<open>
  The \<open>for\<close> loop over the messages that the connection yields before its iteration ends.
\<close>

fun print_incoming_loop :: "message list \<Rightarrow> event list" where
  "print_incoming_loop [] = []"
| "print_incoming_loop (m # ms) = print_message m @ print_incoming_loop ms"

text \<open>
  \<open>print_incoming_messages\<close>: the loop, then the test of the event.  The iteration over
  the connection yields the messages \<open>msgs\<close> and then either ends (\<open>raised = None\<close>) or raises
  an exception (\<open>raised = Some x\<close>, as an iterator may on a transport error).  The loop is not
  inside a \<open>try\<close> statement, so an exception of the iteration leaves the function before
  the test of the event; it is returned with the effects.  \<open>win32\<close> is
  \<open>sys.platform == "win32"\<close>, \<open>stop_is_set\<close> is what \<open>stop.is_set()\<close> returns when the
  iteration has ended.
\<close>

definition print_incoming_messages ::
  "bool \<Rightarrow> message list \<Rightarrow> exn option \<Rightarrow> bool \<Rightarrow> event list \<times> exn option" where
  "print_incoming_messages win32 msgs raised stop_is_set =
     (case raised of
        Some x \<Rightarrow> (print_incoming_loop msgs, Some x)
      | None \<Rightarrow>
          (print_incoming_loop msgs @ [IsSet stop_is_set] @
           (if \<not> stop_is_set
            then [Kill (if win32 then CTRL_C_EVENT else SIGINT)]
            else []),
           None))"

text \<open>
  What "hex-encoded" means, independently of \<open>bytes.hex()\<close>: the value of each
  hexadecimal digit, and the bytes that a text of such digits stands for, two digits for
  one byte, the high one first.
\<close>

definition hex_digit_value_spec :: "char \<Rightarrow> nat option" where
  "hex_digit_value_spec c =
     map_of
       [(CHR ''0'', 0), (CHR ''1'', 1), (CHR ''2'', 2), (CHR ''3'', 3), (CHR ''4'', 4),
        (CHR ''5'', 5), (CHR ''6'', 6), (CHR ''7'', 7), (CHR ''8'', 8), (CHR ''9'', 9),
        (CHR ''a'', 10), (CHR ''b'', 11), (CHR ''c'', 12), (CHR ''d'', 13), (CHR ''e'', 14),
        (CHR ''f'', 15)] c"

fun hex_decode_spec :: "string \<Rightarrow> bytes option" where
  "hex_decode_spec [] = Some []"
| "hex_decode_spec [c] = None"
| "hex_decode_spec (c # d # cs) =
     (case hex_digit_value_spec c of
        None \<Rightarrow> None
      | Some h \<Rightarrow>
          (case hex_digit_value_spec d of
             None \<Rightarrow> None
           | Some l \<Rightarrow>
               (case hex_decode_spec cs of
                  None \<Rightarrow> None
                | Some bs \<Rightarrow> Some (word_of_nat (16 * h + l) # bs))))"

subsection \<open>The input loop\<close>

text \<open>
  Standard input and the connection, as the input loop meets them.  One \<open>turn\<close> is one
  call of \<open>input("> ")\<close>: it returns a line, and then \<open>websocket.send\<close> returns or raises,
  or \<open>input\<close> itself raises (\<open>KeyboardInterrupt\<close> on an interrupt, also the one that the
  receiver thread delivers).  When the turns are used up standard input is at its end and
  \<open>input\<close> raises \<open>EOFError\<close>.  An interrupt is taken at \<open>input\<close> or at \<open>send\<close>, where
  the main thread waits.
\<close>

datatype send_result = Sent | SendRaises exn

datatype turn = Line string send_result | InputRaises exn

text \<open>
  The \<open>while True\<close> loop: it ends only by an exception, which is returned with the effects.
\<close>

fun input_loop :: "turn list \<Rightarrow> event list \<times> exn" where
  "input_loop [] = ([Input ''> ''], EOFError)"
| "input_loop (InputRaises x # ts) = ([Input ''> ''], x)"
| "input_loop (Line message (SendRaises x) # ts) = ([Input ''> '', Send message], x)"
| "input_loop (Line message Sent # ts) =
     (case input_loop ts of (evs, x) \<Rightarrow> (Input ''> '' # Send message # evs, x))"

subsection \<open>The main function\<close>

text \<open>The result of \<open>parser.parse_args()\<close>.\<close>

record args =
  version :: bool
  uri :: "string option"

text \<open>
  What the collaborators answer during one run.  \<open>vt100_error\<close> is the message of the
  \<open>RuntimeError\<close> of \<open>win_enable_vt100\<close> if it raises, \<open>connect_error\<close> the text of the
  exception of \<open>connect\<close> if it raises, \<open>close_code\<close> and \<open>close_reason\<close> the attributes of
  the connection once \<open>close()\<close> has returned.
\<close>

record env =
  platform_win32 :: bool
  vt100_error :: "string option"
  websockets_version :: string
  connect_error :: "string option"
  stdin :: "turn list"
  close_code :: "int option"
  close_reason :: "string option"

datatype outcome = Returned | Exited nat | Uncaught exn

text \<open>\<open>print(s)\<close> writes the text and then the line end to standard output.\<close>

definition py_print :: "string \<Rightarrow> event list" where
  "py_print s = [Write Stdout s, Write Stdout [LF]]"

text \<open>The block that enables VT100 on Windows and reports when it cannot.\<close>

definition enable_vt100 :: "env \<Rightarrow> event list" where
  "enable_vt100 e =
     (if platform_win32 e then
        (case vt100_error e of
           None \<Rightarrow> []
         | Some exc \<Rightarrow>
             [Write Stderr
                (''Unable to set terminal to VT100 mode. This is only ''
                 @ ''supported since Win10 anniversary update. Expect ''
                 @ ''weird symbols on the terminal.'' @ [LF] @ ''Error: '' @ exc @ [LF]),
              Flush Stderr])
      else [])"

subsection \<open>The text of a close status\<close>

text \<open>
  The handler formats \<open>Close(websocket.close_code, websocket.close_reason)\<close> into the final
  line.  \<open>Close\<close> is the class that the module imports from \<open>websockets.frames\<close>, another
  module of the package; its \<open>__str__\<close> is modelled here as that module has it: the
  code in decimal, the explanation of the code in parentheses, and then, if the reason is
  not empty, a space and the reason.  Codes 3000 to 3999 are "registered", codes 4000 to 4999
  "private use", the others are looked up in the table and are "unknown" if not in it.
\<close>

fun show_nat :: "nat \<Rightarrow> string" where
  "show_nat n =
     (if n < 10 then [''0123456789'' ! n]
      else show_nat (n div 10) @ [''0123456789'' ! (n mod 10)])"

declare show_nat.simps [simp del]

definition show_int :: "int \<Rightarrow> string" where
  "show_int i = (if i < 0 then ''-'' @ show_nat (nat (- i)) else show_nat (nat i))"

definition CLOSE_CODE_EXPLANATIONS :: "(int \<times> string) list" where
  "CLOSE_CODE_EXPLANATIONS =
     [(1000, ''OK''),
      (1001, ''going away''),
      (1002, ''protocol error''),
      (1003, ''unsupported data''),
      (1005, ''no status received [internal]''),
      (1006, ''connection closed abnormally [internal]''),
      (1007, ''invalid frame payload data''),
      (1008, ''policy violation''),
      (1009, ''message too big''),
      (1010, ''extension required''),
      (1011, ''internal error''),
      (1012, ''service restart''),
      (1013, ''try again later''),
      (1014, ''bad gateway''),
      (1015, ''TLS handshake failure [internal]'')]"

definition close_explanation :: "int \<Rightarrow> string" where
  "close_explanation code =
     (if 3000 \<le> code \<and> code < 4000 then ''registered''
      else if 4000 \<le> code \<and> code < 5000 then ''private use''
      else (case map_of CLOSE_CODE_EXPLANATIONS code of
              Some explanation \<Rightarrow> explanation
            | None \<Rightarrow> ''unknown''))"

definition Close_str :: "int \<Rightarrow> string \<Rightarrow> string" where
  "Close_str code reason =
     (let result = show_int code @ '' ('' @ close_explanation code @ '')''
      in if reason \<noteq> [] then result @ '' '' @ reason else result)"

subsection \<open>The handler and the main function\<close>

text \<open>
  The handler of \<open>except (KeyboardInterrupt, EOFError)\<close>: its effects, and the exception
  it raises if the assertion fails.
\<close>

definition except_block :: "env \<Rightarrow> event list \<times> exn option" where
  "except_block e =
     (case close_code e of
        None \<Rightarrow> ([StopSet, CloseCall], Some AssertionError)
      | Some code \<Rightarrow>
          (case close_reason e of
             None \<Rightarrow> ([StopSet, CloseCall], Some AssertionError)
           | Some reason \<Rightarrow>
               ([StopSet, CloseCall]
                @ print_over_input (''Connection closed: '' @ Close_str code reason @ ''.''),
                None)))"

text \<open>
  \<open>main\<close>.  \<open>parser.error\<close> ends the process with status 2 and \<open>sys.exit(1)\<close> with
  status 1.  An exception of the loop that the handler does not name leaves \<open>main\<close>, and so
  does the \<open>AssertionError\<close> of the handler; \<open>thread.join()\<close> follows the \<open>try\<close> statement.
\<close>

definition main :: "args \<Rightarrow> env \<Rightarrow> event list \<times> outcome" where
  "main a e =
     (if version a then (py_print (''websockets '' @ websockets_version e), Returned)
      else
        (case uri a of
           None \<Rightarrow>
             ([ParserError ''the following arguments are required: <uri>''], Exited 2)
         | Some u \<Rightarrow>
             (case connect_error e of
                Some exc \<Rightarrow>
                  (enable_vt100 e @ [Connect u]
                   @ py_print (''Failed to connect to '' @ u @ '': '' @ exc @ ''.''),
                   Exited 1)
              | None \<Rightarrow>
                  (case input_loop (stdin e) of
                     (evs, x) \<Rightarrow>
                       (let started =
                              enable_vt100 e @ [Connect u]
                              @ py_print (''Connected to '' @ u @ ''.'') @ [ThreadStart] @ evs
                        in if x = KeyboardInterrupt \<or> x = EOFError then
                             (case except_block e of
                                (h, None) \<Rightarrow> (started @ h @ [ThreadJoin], Returned)
                              | (h, Some y) \<Rightarrow> (started @ h, Uncaught y))
                           else (started, Uncaught x))))))"

subsection \<open>Reading a list of effects\<close>

text \<open>Everything written to one stream, in order.\<close>

fun written :: "py_stream \<Rightarrow> event list \<Rightarrow> string" where
  "written st [] = []"
| "written st (Write st' s # es) = (if st' = st then s @ written st es else written st es)"
| "written st (_ # es) = written st es"

text \<open>
  Monitors of the shared state along one interleaving of both threads.  The first argument
  is the state so far.

  \<open>set_before_close flag es\<close>: at every call of \<open>close()\<close> the event is already set.
\<close>

fun set_before_close :: "bool \<Rightarrow> event list \<Rightarrow> bool" where
  "set_before_close flag [] = True"
| "set_before_close flag (StopSet # es) = set_before_close True es"
| "set_before_close flag (CloseCall # es) = (flag \<and> set_before_close flag es)"
| "set_before_close flag (_ # es) = set_before_close flag es"

text \<open>
  \<open>reads_see_flag flag es\<close>: every \<open>stop.is_set()\<close> returns whether \<open>stop.set()\<close> has
  happened before it in the interleaving.
\<close>

fun reads_see_flag :: "bool \<Rightarrow> event list \<Rightarrow> bool" where
  "reads_see_flag flag [] = True"
| "reads_see_flag flag (StopSet # es) = reads_see_flag True es"
| "reads_see_flag flag (IsSet b # es) = (b = flag \<and> reads_see_flag flag es)"
| "reads_see_flag flag (_ # es) = reads_see_flag flag es"

text \<open>
  \<open>read_after_close closed es\<close>: some \<open>stop.is_set()\<close> is evaluated after \<open>close()\<close> has
  been called.
\<close>

fun read_after_close :: "bool \<Rightarrow> event list \<Rightarrow> bool" where
  "read_after_close closed [] = False"
| "read_after_close closed (CloseCall # es) = read_after_close True es"
| "read_after_close closed (IsSet b # es) = (closed \<or> read_after_close closed es)"
| "read_after_close closed (_ # es) = read_after_close closed es"

text \<open>The events that the monitors look at.\<close>

fun coordination :: "event \<Rightarrow> bool" where
  "coordination StopSet = True"
| "coordination CloseCall = True"
| "coordination (IsSet b) = True"
| "coordination _ = False"

subsection \<open>A concrete session\<close>

text \<open>
  The arguments and the collaborators of the scenarios of the specification: a URI is given,
  the platform is not Windows, \<open>connect\<close> fails with the text \<open>failure\<close> if there is one, and
  after \<open>close()\<close> the connection has the given code and reason.
\<close>

definition scenario_args :: args where
  "scenario_args = \<lparr>version = False, uri = Some ''ws://localhost:8765''\<rparr>"

definition scenario_env ::
  "string option \<Rightarrow> turn list \<Rightarrow> int option \<Rightarrow> string option \<Rightarrow> env" where
  "scenario_env failure turns code reason =
     \<lparr>platform_win32 = False, vt100_error = None, websockets_version = ''13.0'',
      connect_error = failure, stdin = turns, close_code = code, close_reason = reason\<rparr>"

section \<open>Properties\<close>

subsection \<open>Auxiliary facts\<close>

lemma written_append: "written st (xs @ ys) = written st xs @ written st ys"
proof (induction xs)
  case Nil
  show ?case by simp
next
  case (Cons x xs)
  then show ?case by (cases x) simp_all
qed

lemma kill_not_in_message: "Kill sg \<notin> set (print_message m)"
  by (cases m) (simp_all add: print_during_input_def)

lemma kill_not_in_loop: "Kill sg \<notin> set (print_incoming_loop ms)"
  by (induction ms) (simp_all add: kill_not_in_message)

text \<open>The indices into the table of digits are within it.\<close>

lemma hex_byte_indices_in_range:
  "unat (b :: 8 word) div 16 < 16 \<and> unat b mod 16 < 16
   \<and> length ''0123456789abcdef'' = 16"
proof -
  have "unat b < 256" using unsigned_less [of b] by simp
  then have "unat b div 16 < 16" by arith
  then show ?thesis by simp
qed

lemma length_hex: "length (hex bs) = 2 * length bs"
  by (induction bs) (simp_all add: hex_def hex_byte_def)

text \<open>The text of \<open>hex\<close> stands for the bytes it was made from.\<close>

lemma hex_digit_value_hexdigit:
  assumes "n < 16"
  shows "hex_digit_value_spec (hexdigit n) = Some n"
proof -
  have "list_all (\<lambda>k. hex_digit_value_spec (hexdigit k) = Some k) [0..<16]"
    by code_simp
  then have "\<forall>k \<in> {0..<16}. hex_digit_value_spec (hexdigit k) = Some k"
    by (simp add: list_all_iff)
  then show ?thesis using assms by simp
qed

lemma hex_decode_hex_byte:
  "hex_decode_spec (hex_byte b @ cs) =
     (case hex_decode_spec cs of None \<Rightarrow> None | Some bs \<Rightarrow> Some (b # bs))"
proof -
  have lt: "unat b < 256" using unsigned_less [of b] by simp
  then have hi: "unat b div 16 < 16" by arith
  have lo: "unat b mod 16 < 16" by simp
  have "word_of_nat (16 * (unat b div 16) + unat b mod 16) = b"
    by simp
  then show ?thesis
    by (simp add: hex_byte_def hex_digit_value_hexdigit [OF hi] hex_digit_value_hexdigit [OF lo]
          split: option.splits)
qed

lemma hex_decode_hex: "hex_decode_spec (hex bs) = Some bs"
proof (induction bs)
  case Nil
  show ?case by (simp add: hex_def)
next
  case (Cons b bs)
  have "hex (b # bs) = hex_byte b @ hex bs" by (simp add: hex_def)
  then show ?case using Cons by (simp add: hex_decode_hex_byte)
qed

lemma kill_not_in_receiver_raising:
  "Kill sg \<notin> set (fst (print_incoming_messages w ms (Some x) b))"
  by (simp add: print_incoming_messages_def kill_not_in_loop)

lemma print_incoming_loop_append:
  "print_incoming_loop (ms @ ms') = print_incoming_loop ms @ print_incoming_loop ms'"
  by (induction ms) simp_all

lemma print_during_input_ops:
  "print_during_input text =
     [Write Stdout (concat (map vt100 (insert_above_prompt_spec text))), Flush Stdout]"
  by (simp add: print_during_input_def insert_above_prompt_spec_def)

lemma input_loop_sent_prefix:
  "input_loop (map (\<lambda>l. Line l Sent) ls @ ts) =
     (concat (map (\<lambda>l. [Input ''> '', Send l]) ls) @ fst (input_loop ts), snd (input_loop ts))"
  by (induction ls) (simp_all add: case_prod_beta)

lemma input_loop_prompts_first: "take 1 (fst (input_loop ts)) = [Input ''> '']"
proof (cases ts)
  case Nil
  then show ?thesis by simp
next
  case (Cons t ts')
  show ?thesis
  proof (cases t)
    case (Line s r)
    with Cons show ?thesis by (cases r) (simp_all add: case_prod_beta)
  next
    case (InputRaises x)
    with Cons show ?thesis by simp
  qed
qed

lemma enable_vt100_events:
  "ev \<in> set (enable_vt100 e) \<Longrightarrow> (\<exists>s. ev = Write Stderr s) \<or> ev = Flush Stderr"
  unfolding enable_vt100_def
  by (cases "vt100_error e"; cases "platform_win32 e") auto

lemma written_stdout_vt100: "written Stdout (enable_vt100 e) = []"
  unfolding enable_vt100_def
  by (cases "vt100_error e"; cases "platform_win32 e") simp_all

lemma thread_start_not_in_vt100: "ThreadStart \<notin> set (enable_vt100 e)"
  using enable_vt100_events [of ThreadStart e] by auto

text \<open>\<open>main\<close> once a URI is given and the connection is established.\<close>

lemma main_session:
  assumes "\<not> version a" and "uri a = Some u" and "connect_error e = None"
  shows "main a e =
     (let started = enable_vt100 e @ [Connect u] @ py_print (''Connected to '' @ u @ ''.'')
                    @ [ThreadStart] @ fst (input_loop (stdin e));
          x = snd (input_loop (stdin e))
      in if x = KeyboardInterrupt \<or> x = EOFError then
           (case except_block e of
              (h, None) \<Rightarrow> (started @ h @ [ThreadJoin], Returned)
            | (h, Some y) \<Rightarrow> (started @ h, Uncaught y))
         else (started, Uncaught x))"
  using assms by (simp add: main_def case_prod_beta Let_def)

subsection \<open>The terminal printer\<close>

text \<open>
  Claim C8.  \<open>insert_above_prompt(text)\<close>, which is \<open>print_during_input\<close>, performs one
  write to standard output followed by one flush, and the text written is exactly the
  sequence: save the cursor position, a newline, cursor up one line, insert a blank line,
  the text and a newline, restore the cursor position, cursor down one line.
\<close>

theorem print_during_input_refines_insert_above_prompt:
  "print_during_input text =
     [Write Stdout (concat (map vt100 (insert_above_prompt_spec text))), Flush Stdout]
   \<and> concat (map vt100 (insert_above_prompt_spec text)) =
       [ESC, CHR ''7'', LF, ESC, CHR ''['', CHR ''A'', ESC, CHR ''['', CHR ''L'']
       @ text @ [LF, ESC, CHR ''8'', ESC, CHR ''['', CHR ''B'']"
  by (simp add: print_during_input_def insert_above_prompt_spec_def)

subsection \<open>The receiver loop\<close>

text \<open>
  Claim C7.  Every incoming message, wherever it stands in the sequence and however the
  iteration ends, is rendered by one call of \<open>print_during_input\<close> (the specification's
  \<open>insert_above_prompt\<close>): a text message as the line "< " followed by the text as it is, a
  binary message as the line "< (binary) " followed by the hexadecimal text of its payload.
  That text has two digits for each byte, and read as hexadecimal digits it gives back the
  payload.
\<close>

theorem receiver_renders_each_message:
  "fst (print_incoming_messages w (ms @ Text s # ms') r b) =
     print_incoming_loop ms
     @ [Write Stdout (concat (map vt100 (insert_above_prompt_spec (''< '' @ s)))),
        Flush Stdout]
     @ fst (print_incoming_messages w ms' r b)
   \<and> fst (print_incoming_messages w (ms @ Binary bs # ms') r b) =
     print_incoming_loop ms
     @ [Write Stdout (concat (map vt100 (insert_above_prompt_spec (''< (binary) '' @ hex bs)))),
        Flush Stdout]
     @ fst (print_incoming_messages w ms' r b)
   \<and> hex (pre @ byte # post) =
     hex pre @ [hexdigit (unat byte div 16), hexdigit (unat byte mod 16)] @ hex post
   \<and> hex_decode_spec (hex bs) = Some bs
   \<and> length (hex bs) = 2 * length bs"
  by (cases r)
     (simp_all add: print_incoming_messages_def print_incoming_loop_append
        print_during_input_ops hex_decode_hex length_hex,
      simp_all add: hex_def hex_byte_def)

theorem receiver_renders_each_message_witness:
  "fst (print_incoming_messages False [Text ''hi'', Binary [0x00, 0x0F, 0xA5, 0xFF]] None True) =
     [Write Stdout
        ([ESC, CHR ''7'', LF, ESC, CHR ''['', CHR ''A'', ESC, CHR ''['', CHR ''L'']
         @ ''< hi'' @ [LF, ESC, CHR ''8'', ESC, CHR ''['', CHR ''B'']),
      Flush Stdout,
      Write Stdout
        ([ESC, CHR ''7'', LF, ESC, CHR ''['', CHR ''A'', ESC, CHR ''['', CHR ''L'']
         @ ''< (binary) 000fa5ff'' @ [LF, ESC, CHR ''8'', ESC, CHR ''['', CHR ''B'']),
      Flush Stdout,
      IsSet True]
   \<and> hex [0xDE, 0xAD, 0xBE, 0xEF] = ''deadbeef''
   \<and> hex_decode_spec ''deadbeef'' = Some [0xDE, 0xAD, 0xBE, 0xEF]"
proof -
  have h: "hex [0x00, 0x0F, 0xA5, 0xFF] = ''000fa5ff''"
    by (simp add: hex_def hex_byte_def hexdigit_def)
  have d: "hex [0xDE, 0xAD, 0xBE, 0xEF] = ''deadbeef''"
    by (simp add: hex_def hex_byte_def hexdigit_def)
  show ?thesis
    using receiver_renders_each_message
      [where w = False and ms = "[Text ''hi'']" and bs = "[0x00, 0x0F, 0xA5, 0xFF]"
         and ms' = "[]" and r = None and b = True]
      receiver_renders_each_message [where bs = "[0xDE, 0xAD, 0xBE, 0xEF]"]
    by (simp add: h d print_incoming_messages_def print_during_input_def
          insert_above_prompt_spec_def)
qed

text \<open>
  Claim C10.  A message that is not a string is a binary one and is rendered as
  "< (binary) " followed by its \<open>hex()\<close>; the empty binary message is rendered as the line
  "< (binary) " with nothing after the space.
\<close>

theorem non_text_message_rendered_as_binary:
  "((\<forall>s. m \<noteq> Text s) \<longrightarrow>
      (\<exists>bs. m = Binary bs \<and> print_message m = print_during_input (''< (binary) '' @ hex bs)))
   \<and> fst (print_incoming_messages w [Binary []] r b) =
       [Write Stdout
          ([ESC, CHR ''7'', LF, ESC, CHR ''['', CHR ''A'', ESC, CHR ''['', CHR ''L'']
           @ ''< (binary) '' @ [LF, ESC, CHR ''8'', ESC, CHR ''['', CHR ''B'']),
        Flush Stdout]
       @ fst (print_incoming_messages w [] r b)"
  by (cases m; cases r)
     (simp_all add: print_incoming_messages_def print_during_input_def hex_def)

theorem non_text_message_rendered_as_binary_witness:
  "(\<forall>s. Binary [0xDE, 0xAD] \<noteq> Text s)
   \<and> print_message (Binary [0xDE, 0xAD]) = print_during_input ''< (binary) dead''"
  using non_text_message_rendered_as_binary [of "Binary [0xDE, 0xAD]"]
  by (simp add: hex_def hex_byte_def hexdigit_def)

text \<open>
  When the iteration over the connection ends without an exception, the receiver delivers
  the interrupt (\<open>os.kill\<close>) if and only if \<open>stop.is_set()\<close> is false; if the event is set,
  reading it is the last thing the receiver does.
\<close>

lemma receiver_clean_end:
  "((\<exists>sg. Kill sg \<in> set (fst (print_incoming_messages w ms None b))) \<longleftrightarrow> \<not> b)
   \<and> (b \<longrightarrow> print_incoming_messages w ms None b =
         (print_incoming_loop ms @ [IsSet True], None))
   \<and> (\<not> b \<longrightarrow> print_incoming_messages w ms None b =
         (print_incoming_loop ms @ [IsSet False, Kill (if w then CTRL_C_EVENT else SIGINT)],
          None))"
  by (auto simp add: print_incoming_messages_def kill_not_in_loop)

text \<open>
  Claim C2.  The claim holds when the iteration ends without an exception, and fails when
  it ends by one: the \<open>for\<close> loop is not guarded, so the exception leaves
  \<open>print_incoming_messages\<close> before \<open>stop.is_set()\<close> is evaluated, and no interrupt is
  delivered whether the event is set or not.  With the event unset and an iteration that
  raises at once, the receiver has no effect at all, while the same end without an exception
  delivers the interrupt.
\<close>

theorem receiver_raising_iteration_delivers_no_interrupt:
  "print_incoming_messages w ms (Some x) b = (print_incoming_loop ms, Some x)
   \<and> Kill sg \<notin> set (fst (print_incoming_messages w ms (Some x) b))
   \<and> IsSet b' \<notin> set (fst (print_incoming_messages w ms (Some x) b))
   \<and> print_incoming_messages False [] (Some (OtherError ''ConnectionClosedError'')) False =
       ([], Some (OtherError ''ConnectionClosedError''))
   \<and> print_incoming_messages False [] None False = ([IsSet False, Kill SIGINT], None)"
proof -
  have "IsSet b' \<notin> set (print_incoming_loop ms)"
  proof (induction ms)
    case Nil
    show ?case by simp
  next
    case (Cons m ms)
    then show ?case by (cases m) (simp_all add: print_during_input_def)
  qed
  then show ?thesis
    by (simp add: print_incoming_messages_def kill_not_in_loop)
qed

subsection \<open>The input loop\<close>

text \<open>
  Claim C9.  Every line that \<open>input\<close> returns, the empty line as any other, is passed
  unchanged to \<open>websocket.send\<close> as the next effect, and when that call returns the next
  effect is the prompt for the following line.  (A turn is reached when every earlier line
  was read and sent; a \<open>send\<close> that raises ends the loop.)
\<close>

theorem input_loop_sends_each_line:
  "fst (input_loop (map (\<lambda>l. Line l Sent) ls @ Line s r # rest)) =
     concat (map (\<lambda>l. [Input ''> '', Send l]) ls) @ [Input ''> '', Send s]
     @ (case r of Sent \<Rightarrow> fst (input_loop rest) | SendRaises x \<Rightarrow> [])
   \<and> take 1 (fst (input_loop rest)) = [Input ''> '']"
  using input_loop_prompts_first [of rest]
  by (cases r) (simp_all add: input_loop_sent_prefix case_prod_beta)

text \<open>
  Claim C3, as the code has it.  A \<open>send\<close> that raises an exception other than
  \<open>KeyboardInterrupt\<close> and \<open>EOFError\<close> ends the input loop: nothing is read or sent after
  it.  The handler does not catch it: the exception leaves \<open>main\<close>, the event is not set,
  \<open>close()\<close> is not called, no status line is written and \<open>thread.join()\<close> is not reached.
\<close>

theorem send_failure_leaves_main:
  assumes "\<not> version a" and "uri a = Some u" and "connect_error e = None"
    and "stdin e = map (\<lambda>l. Line l Sent) ls @ Line s (SendRaises x) # rest"
    and "x \<noteq> KeyboardInterrupt" and "x \<noteq> EOFError"
  shows "main a e =
     (enable_vt100 e @ [Connect u] @ py_print (''Connected to '' @ u @ ''.'') @ [ThreadStart]
      @ concat (map (\<lambda>l. [Input ''> '', Send l]) ls) @ [Input ''> '', Send s],
      Uncaught x)"
  using assms by (simp add: main_session input_loop_sent_prefix)

theorem send_failure_leaves_main_witness:
  "main scenario_args
     (scenario_env None
        [Line ''a'' Sent, Line ''b'' (SendRaises (OtherError ''ConnectionClosedOK'')),
         Line ''c'' Sent]
        (Some 1000) (Some ''bye'')) =
     ([Connect ''ws://localhost:8765'', Write Stdout ''Connected to ws://localhost:8765.'',
       Write Stdout [LF], ThreadStart, Input ''> '', Send ''a'', Input ''> '', Send ''b''],
      Uncaught (OtherError ''ConnectionClosedOK''))"
  using send_failure_leaves_main
    [of scenario_args "''ws://localhost:8765''"
        "scenario_env None
           [Line ''a'' Sent, Line ''b'' (SendRaises (OtherError ''ConnectionClosedOK'')),
            Line ''c'' Sent]
           (Some 1000) (Some ''bye'')"
        "[''a'']" "''b''" "OtherError ''ConnectionClosedOK''" "[Line ''c'' Sent]"]
  by (simp add: scenario_args_def scenario_env_def enable_vt100_def py_print_def)

text \<open>
  The claim as the specification words it fails: in the session in which the first \<open>send\<close>
  raises because the connection is closed, \<open>main\<close> ends with that exception, and neither
  \<open>stop.set()\<close> nor \<open>close()\<close> nor \<open>thread.join()\<close> is among its effects, while the same
  session ended by an interrupt performs all three.
\<close>

theorem send_failure_counterexample:
  "main scenario_args
     (scenario_env None [Line ''hello'' (SendRaises (OtherError ''ConnectionClosedOK''))]
        (Some 1000) (Some ''bye'')) =
     ([Connect ''ws://localhost:8765'', Write Stdout ''Connected to ws://localhost:8765.'',
       Write Stdout [LF], ThreadStart, Input ''> '', Send ''hello''],
      Uncaught (OtherError ''ConnectionClosedOK''))
   \<and> main scenario_args
     (scenario_env None [Line ''hello'' (SendRaises KeyboardInterrupt)]
        (Some 1000) (Some ''bye'')) =
     ([Connect ''ws://localhost:8765'', Write Stdout ''Connected to ws://localhost:8765.'',
       Write Stdout [LF], ThreadStart, Input ''> '', Send ''hello'', StopSet, CloseCall,
       Write Stdout ([CR, ESC] @ ''[K'' @ ''Connection closed: 1000 (OK) bye.'' @ [LF]),
       Flush Stdout, ThreadJoin],
      Returned)"
proof -
  have s: "show_int 1000 = ''1000''" by code_simp
  show ?thesis
    by (simp add: main_def scenario_args_def scenario_env_def enable_vt100_def py_print_def
          except_block_def print_over_input_def Close_str_def close_explanation_def
          CLOSE_CODE_EXPLANATIONS_def s)
qed

subsection \<open>Connecting\<close>

text \<open>
  Claim C4, as the code has it.  When \<open>connect\<close> raises, \<open>main\<close> writes
  "Failed to connect to <uri>: <error>." and a line end to standard output (it uses
  \<open>print\<close>), ends the process with status 1 and starts no thread.  Nothing about the
  failure goes to standard error: what is written there is what the VT100 block wrote.
\<close>

theorem connect_failure_reported_on_stdout:
  assumes "\<not> version a" and "uri a = Some u" and "connect_error e = Some exc"
  shows "snd (main a e) = Exited 1
    \<and> written Stdout (fst (main a e)) = ''Failed to connect to '' @ u @ '': '' @ exc @ ''.'' @ [LF]
    \<and> written Stderr (fst (main a e)) = written Stderr (enable_vt100 e)
    \<and> ThreadStart \<notin> set (fst (main a e))"
  using assms
  by (simp add: main_def written_append py_print_def thread_start_not_in_vt100
        written_stdout_vt100)

theorem connect_failure_reported_on_stdout_witness:
  "snd (main scenario_args (scenario_env (Some ''refused'') [] None None)) = Exited 1
   \<and> written Stdout (fst (main scenario_args (scenario_env (Some ''refused'') [] None None)))
       = ''Failed to connect to ws://localhost:8765: refused.'' @ [LF]
   \<and> ThreadStart \<notin> set (fst (main scenario_args (scenario_env (Some ''refused'') [] None None)))"
  using connect_failure_reported_on_stdout
    [of scenario_args "''ws://localhost:8765''"
        "scenario_env (Some ''refused'') [] None None" "''refused''"]
  by (simp add: scenario_args_def scenario_env_def)

text \<open>
  The claim as the specification words it fails: when \<open>connect\<close> raises with the text
  "refused", nothing at all is written to standard error, and the message is on standard
  output.
\<close>

theorem connect_failure_counterexample:
  "written Stderr (fst (main scenario_args (scenario_env (Some ''refused'') [] None None))) = []
   \<and> written Stdout (fst (main scenario_args (scenario_env (Some ''refused'') [] None None)))
       = ''Failed to connect to ws://localhost:8765: refused.'' @ [LF]"
  by (simp add: main_def scenario_args_def scenario_env_def enable_vt100_def py_print_def)

subsection \<open>The termination path\<close>

text \<open>
  Claim C5, as the code has it.  When the input loop ends by \<open>KeyboardInterrupt\<close> or
  \<open>EOFError\<close> and the connection has a close code and a close reason after \<open>close()\<close>, the
  effects that follow the loop are exactly: set the event, call \<open>close()\<close>, write the final
  line with \<open>print_over_input\<close>, join the receiver; and \<open>print_over_input\<close> (the
  specification's \<open>replace_prompt\<close>) is one flushed write of: carriage return, erase the
  line, the text, a newline.  The final line is "Connection closed: <status>." where the
  status is the text of \<open>Close(code, reason)\<close>: the code, its explanation in parentheses
  and, if it is not empty, the reason.
\<close>

theorem termination_renders_close_status:
  assumes "\<not> version a" and "uri a = Some u" and "connect_error e = None"
    and "snd (input_loop (stdin e)) = KeyboardInterrupt \<or> snd (input_loop (stdin e)) = EOFError"
    and "close_code e = Some code" and "close_reason e = Some reason"
  shows "main a e =
     (enable_vt100 e @ [Connect u] @ py_print (''Connected to '' @ u @ ''.'') @ [ThreadStart]
      @ fst (input_loop (stdin e))
      @ [StopSet, CloseCall]
      @ print_over_input (''Connection closed: '' @ Close_str code reason @ ''.'')
      @ [ThreadJoin],
      Returned)
    \<and> print_over_input (''Connection closed: '' @ Close_str code reason @ ''.'') =
       [Write Stdout
          (concat (map vt100
             (replace_prompt_spec (''Connection closed: '' @ Close_str code reason @ ''.'')))),
        Flush Stdout]
    \<and> concat (map vt100
         (replace_prompt_spec (''Connection closed: '' @ Close_str code reason @ ''.''))) =
       [CR, ESC, CHR ''['', CHR ''K''] @ ''Connection closed: ''
       @ show_int code @ '' ('' @ close_explanation code @ '')''
       @ (if reason = [] then [] else '' '' @ reason) @ ''.'' @ [LF]"
  using assms
  by (auto simp add: main_session except_block_def print_over_input_def replace_prompt_spec_def
        Close_str_def)

theorem termination_renders_close_status_witness:
  "main scenario_args
     (scenario_env None [Line ''hello'' Sent, InputRaises KeyboardInterrupt]
        (Some 1000) (Some ''bye'')) =
     ([Connect ''ws://localhost:8765'', Write Stdout ''Connected to ws://localhost:8765.'',
       Write Stdout [LF], ThreadStart, Input ''> '', Send ''hello'', Input ''> '',
       StopSet, CloseCall,
       Write Stdout ([CR, ESC] @ ''[K'' @ ''Connection closed: 1000 (OK) bye.'' @ [LF]),
       Flush Stdout, ThreadJoin], Returned)"
proof -
  let ?e = "scenario_env None [Line ''hello'' Sent, InputRaises KeyboardInterrupt]
              (Some 1000) (Some ''bye'')"
  have s: "show_int 1000 = ''1000''" by code_simp
  have c: "Close_str 1000 ''bye'' = ''1000 (OK) bye''"
    by (simp add: Close_str_def close_explanation_def CLOSE_CODE_EXPLANATIONS_def s)
  have p1: "\<not> version scenario_args" by (simp add: scenario_args_def)
  have p2: "uri scenario_args = Some ''ws://localhost:8765''" by (simp add: scenario_args_def)
  have p3: "connect_error ?e = None" by (simp add: scenario_env_def)
  have p4: "snd (input_loop (stdin ?e)) = KeyboardInterrupt \<or> snd (input_loop (stdin ?e)) = EOFError"
    by (simp add: scenario_env_def)
  have p5: "close_code ?e = Some 1000" by (simp add: scenario_env_def)
  have p6: "close_reason ?e = Some ''bye''" by (simp add: scenario_env_def)
  have v: "enable_vt100 ?e = []" by (simp add: enable_vt100_def scenario_env_def)
  have l: "fst (input_loop (stdin ?e)) = [Input ''> '', Send ''hello'', Input ''> '']"
    by (simp add: scenario_env_def)
  have "main scenario_args ?e =
     (enable_vt100 ?e @ [Connect ''ws://localhost:8765'']
      @ py_print (''Connected to '' @ ''ws://localhost:8765'' @ ''.'') @ [ThreadStart]
      @ fst (input_loop (stdin ?e))
      @ [StopSet, CloseCall]
      @ print_over_input (''Connection closed: '' @ Close_str 1000 ''bye'' @ ''.'')
      @ [ThreadJoin],
      Returned)"
    using termination_renders_close_status [OF p1 p2 p3 p4 p5 p6] by blast
  then show ?thesis
    by (simp add: v l c py_print_def print_over_input_def)
qed

text \<open>
  The claim as the specification words it fails: after a session closed with code 1000 and
  reason "bye", the line "Connection closed: 1000 bye." is not among what \<open>main\<close> writes; the
  final line is "Connection closed: 1000 (OK) bye.".
\<close>

theorem close_status_line_counterexample:
  "Write Stdout ([CR, ESC] @ ''[K'' @ ''Connection closed: 1000 bye.'' @ [LF])
     \<notin> set (fst (main scenario_args (scenario_env None [] (Some 1000) (Some ''bye''))))
   \<and> fst (main scenario_args (scenario_env None [] (Some 1000) (Some ''bye''))) =
     [Connect ''ws://localhost:8765'', Write Stdout ''Connected to ws://localhost:8765.'',
      Write Stdout [LF], ThreadStart, Input ''> '', StopSet, CloseCall,
      Write Stdout ([CR, ESC] @ ''[K'' @ ''Connection closed: 1000 (OK) bye.'' @ [LF]),
      Flush Stdout, ThreadJoin]"
proof -
  have s: "show_int 1000 = ''1000''" by code_simp
  have tr: "fst (main scenario_args (scenario_env None [] (Some 1000) (Some ''bye''))) =
     [Connect ''ws://localhost:8765'', Write Stdout ''Connected to ws://localhost:8765.'',
      Write Stdout [LF], ThreadStart, Input ''> '', StopSet, CloseCall,
      Write Stdout ([CR, ESC] @ ''[K'' @ ''Connection closed: 1000 (OK) bye.'' @ [LF]),
      Flush Stdout, ThreadJoin]"
    by (simp add: main_def scenario_args_def scenario_env_def enable_vt100_def py_print_def
          except_block_def print_over_input_def Close_str_def close_explanation_def
          CLOSE_CODE_EXPLANATIONS_def s)
  show ?thesis by (simp add: tr)
qed

text \<open>
  Claim C6.  On the termination path, if the close code or the close reason is still
  \<open>None\<close> after \<open>close()\<close>, the assertion fails: \<open>main\<close> ends with an uncaught
  \<open>AssertionError\<close> right after the call of \<open>close()\<close>, with no status line and no join.
  Hence whenever \<open>main\<close> returns from a session, both were set.
\<close>

theorem unset_close_status_is_assertion_failure:
  assumes "\<not> version a" and "uri a = Some u" and "connect_error e = None"
    and "snd (input_loop (stdin e)) = KeyboardInterrupt \<or> snd (input_loop (stdin e)) = EOFError"
  shows "(close_code e = None \<or> close_reason e = None \<longrightarrow>
           main a e =
             (enable_vt100 e @ [Connect u] @ py_print (''Connected to '' @ u @ ''.'')
              @ [ThreadStart] @ fst (input_loop (stdin e)) @ [StopSet, CloseCall],
              Uncaught AssertionError))
    \<and> (snd (main a e) = Returned \<longrightarrow> close_code e \<noteq> None \<and> close_reason e \<noteq> None)"
  using assms
  by (auto simp add: main_session except_block_def split: option.splits)

theorem unset_close_status_is_assertion_failure_witness:
  "main scenario_args (scenario_env None [] (Some 1000) None) =
     ([Connect ''ws://localhost:8765'', Write Stdout ''Connected to ws://localhost:8765.'',
       Write Stdout [LF], ThreadStart, Input ''> '', StopSet, CloseCall],
      Uncaught AssertionError)
   \<and> snd (main scenario_args (scenario_env None [] (Some 1000) (Some ''bye''))) = Returned"
proof -
  have "main scenario_args (scenario_env None [] (Some 1000) None) =
     ([Connect ''ws://localhost:8765'', Write Stdout ''Connected to ws://localhost:8765.'',
       Write Stdout [LF], ThreadStart, Input ''> '', StopSet, CloseCall],
      Uncaught AssertionError)"
    using unset_close_status_is_assertion_failure
      [of scenario_args "''ws://localhost:8765''" "scenario_env None [] (Some 1000) None"]
    by (simp add: scenario_args_def scenario_env_def enable_vt100_def py_print_def)
  moreover have "snd (main scenario_args (scenario_env None [] (Some 1000) (Some ''bye''))) = Returned"
    by (simp add: main_def scenario_args_def scenario_env_def except_block_def)
  ultimately show ?thesis by simp
qed

subsection \<open>The order of the shutdown\<close>

text \<open>
  The monitors look at the events of the coordination only, and each thread has few of
  them: the main thread \<open>stop.set()\<close> followed by \<open>close()\<close>, or none, and the receiver the
  one test of the event.
\<close>

lemma set_before_close_filter:
  "set_before_close flag (filter coordination es) = set_before_close flag es"
proof (induction es arbitrary: flag)
  case Nil
  show ?case by simp
next
  case (Cons x es)
  then show ?case by (cases x) simp_all
qed

lemma reads_see_flag_filter:
  "reads_see_flag flag (filter coordination es) = reads_see_flag flag es"
proof (induction es arbitrary: flag)
  case Nil
  show ?case by simp
next
  case (Cons x es)
  then show ?case by (cases x) simp_all
qed

lemma read_after_close_filter:
  "read_after_close closed (filter coordination es) = read_after_close closed es"
proof (induction es arbitrary: closed)
  case Nil
  show ?case by simp
next
  case (Cons x es)
  then show ?case by (cases x) simp_all
qed

lemma coordination_print_incoming_loop: "filter coordination (print_incoming_loop ms) = []"
proof (induction ms)
  case Nil
  show ?case by simp
next
  case (Cons m ms)
  then show ?case by (cases m) (simp_all add: print_during_input_def)
qed

lemma coordination_receiver:
  "filter coordination (fst (print_incoming_messages w ms r b)) =
     (case r of None \<Rightarrow> [IsSet b] | Some x \<Rightarrow> [])"
  by (cases r) (simp_all add: print_incoming_messages_def coordination_print_incoming_loop)

lemma coordination_input_loop: "filter coordination (fst (input_loop ts)) = []"
  by (induction ts rule: input_loop.induct) (simp_all add: case_prod_beta)

lemma coordination_vt100: "filter coordination (enable_vt100 e) = []"
  unfolding enable_vt100_def
  by (cases "vt100_error e"; cases "platform_win32 e") simp_all

lemma coordination_except_block:
  "filter coordination (fst (except_block e)) = [StopSet, CloseCall]"
  by (simp add: except_block_def print_over_input_def split: option.splits)

lemma coordination_main:
  "filter coordination (fst (main a e)) = [] \<or>
   filter coordination (fst (main a e)) = [StopSet, CloseCall]"
proof (cases "\<not> version a \<and> uri a \<noteq> None \<and> connect_error e = None")
  case True
  then obtain u where u: "uri a = Some u" by auto
  have "main a e =
     (let started = enable_vt100 e @ [Connect u] @ py_print (''Connected to '' @ u @ ''.'')
                    @ [ThreadStart] @ fst (input_loop (stdin e));
          x = snd (input_loop (stdin e))
      in if x = KeyboardInterrupt \<or> x = EOFError then
           (case except_block e of
              (h, None) \<Rightarrow> (started @ h @ [ThreadJoin], Returned)
            | (h, Some y) \<Rightarrow> (started @ h, Uncaught y))
         else (started, Uncaught x))"
    using True u by (simp add: main_session)
  then show ?thesis
    using coordination_except_block [of e]
    by (cases "except_block e"; cases "snd (except_block e)")
       (simp_all add: Let_def py_print_def coordination_vt100 coordination_input_loop)
next
  case False
  then show ?thesis
    by (auto simp add: main_def py_print_def coordination_vt100 split: option.splits)
qed

lemma kill_not_in_input_loop: "Kill sg \<notin> set (fst (input_loop ts))"
  by (induction ts rule: input_loop.induct) (simp_all add: case_prod_beta)

lemma kill_not_in_main: "Kill sg \<notin> set (fst (main a e))"
  using enable_vt100_events [of "Kill sg" e] kill_not_in_input_loop [of sg "stdin e"]
  by (auto simp add: main_def py_print_def except_block_def print_over_input_def Let_def
        split: option.splits prod.splits if_splits)

lemma filter_in_shuffles:
  "zs \<in> shuffles xs ys \<Longrightarrow> filter P zs \<in> shuffles (filter P xs) (filter P ys)"
  using filter_shuffles [of P xs ys] by blast

lemma filter_take_prefix: "\<exists>m. filter P (take n xs) = take m (filter P xs)"
proof (induction xs arbitrary: n)
  case Nil
  show ?case by simp
next
  case (Cons x xs)
  show ?case
  proof (cases n)
    case 0
    have "filter P (take n (x # xs)) = take 0 (filter P (x # xs))" using 0 by simp
    then show ?thesis by blast
  next
    case (Suc n')
    obtain m where m: "filter P (take n' xs) = take m (filter P xs)"
      using Cons.IH [of n'] by blast
    show ?thesis
    proof (cases "P x")
      case True
      have "filter P (take n (x # xs)) = take (Suc m) (filter P (x # xs))"
        using Suc m True by simp
      then show ?thesis by blast
    next
      case False
      have "filter P (take n (x # xs)) = take m (filter P (x # xs))"
        using Suc m False by simp
      then show ?thesis by blast
    qed
  qed
qed

lemma take_two_cases: "take m [x, y] = [] \<or> take m [x, y] = [x] \<or> take m [x, y] = [x, y]"
  by (cases m; cases "m - 1") auto

lemma take_one_cases: "take m [x] = [] \<or> take m [x] = [x]"
  by (cases m) auto

lemma coordination_main_prefix:
  "filter coordination (take n (fst (main a e))) \<in> {[], [StopSet], [StopSet, CloseCall]}"
proof -
  obtain m where m: "filter coordination (take n (fst (main a e))) =
      take m (filter coordination (fst (main a e)))"
    using filter_take_prefix by blast
  show ?thesis
    using coordination_main [of a e] take_two_cases [of m StopSet CloseCall]
    by (auto simp add: m)
qed

lemma coordination_receiver_prefix:
  "filter coordination (take k (fst (print_incoming_messages w ms r b))) \<in> {[], [IsSet b]}"
proof -
  obtain m where m: "filter coordination (take k (fst (print_incoming_messages w ms r b))) =
      take m (filter coordination (fst (print_incoming_messages w ms r b)))"
    using filter_take_prefix by blast
  show ?thesis
  proof (cases r)
    case None
    then have "filter coordination (take k (fst (print_incoming_messages w ms r b))) =
        take m [IsSet b]"
      using m by (simp add: coordination_receiver)
    then show ?thesis using take_one_cases [of m "IsSet b"] by auto
  next
    case (Some x)
    then have "filter coordination (take k (fst (print_incoming_messages w ms r b))) = []"
      using m by (simp add: coordination_receiver)
    then show ?thesis by simp
  qed
qed

text \<open>
  Claim C1.  Take the effects of the main thread and those of the receiver thread (however
  its iteration ends), each cut at any point, and any interleaving of the two that keeps the
  order of each thread.  At
  every call of \<open>close()\<close> in it, \<open>stop.set()\<close> has already happened.  Moreover, if every
  \<open>stop.is_set()\<close> returns whether \<open>stop.set()\<close> has happened before it (the event is a
  shared variable whose operations are atomic) and the receiver tests the event after
  \<open>close()\<close> was called, then it finds the event set and delivers no interrupt.
\<close>

theorem flag_set_before_close_in_every_interleaving:
  assumes "zs \<in> shuffles (take n (fst (main a e)))
                 (take k (fst (print_incoming_messages w ms r b)))"
  shows "set_before_close False zs
    \<and> (reads_see_flag False zs \<and> read_after_close False zs \<longrightarrow>
         b \<and> (\<forall>sg. Kill sg \<notin> set zs))"
proof -
  let ?cs = "filter coordination zs"
  let ?m = "filter coordination (take n (fst (main a e)))"
  let ?r = "filter coordination (take k (fst (print_incoming_messages w ms r b)))"
  have mem: "?cs \<in> shuffles ?m ?r"
    using filter_in_shuffles [OF assms, of coordination] .
  have m: "?m = [] \<or> ?m = [StopSet] \<or> ?m = [StopSet, CloseCall]"
    using coordination_main_prefix [of n a e] by simp
  have r: "?r = [] \<or> ?r = [IsSet b]"
    using coordination_receiver_prefix [of k w ms r b] by simp
  have first: "set_before_close False ?cs"
    using mem m r by auto
  have second: "reads_see_flag False ?cs \<and> read_after_close False ?cs \<longrightarrow> b"
    using mem m r by auto
  have kill: "Kill sg \<notin> set zs" if "b" for sg
  proof -
    have "Kill sg \<notin> set (fst (print_incoming_messages w ms r b))"
      using that kill_not_in_loop [of sg ms]
      by (cases r) (simp_all add: print_incoming_messages_def)
    then show ?thesis
      using set_shuffles [OF assms] kill_not_in_main [of sg a e]
        in_set_takeD [of "Kill sg" n "fst (main a e)"]
        in_set_takeD [of "Kill sg" k "fst (print_incoming_messages w ms r b)"]
      by auto
  qed
  show ?thesis
    using first second kill
    by (simp add: set_before_close_filter reads_see_flag_filter read_after_close_filter)
qed

theorem flag_set_before_close_in_every_interleaving_witness:
  "[Connect ''ws://localhost:8765'', Write Stdout ''Connected to ws://localhost:8765.'',
    Write Stdout [LF], ThreadStart, Input ''> '', StopSet, CloseCall, IsSet True,
    Write Stdout ([CR, ESC] @ ''[K'' @ ''Connection closed: 1000 (OK) bye.'' @ [LF]),
    Flush Stdout, ThreadJoin]
   \<in> shuffles
       (take 12 (fst (main scenario_args (scenario_env None [] (Some 1000) (Some ''bye'')))))
       (take 1 (fst (print_incoming_messages False [] None True)))
   \<and> reads_see_flag False
       [Connect ''ws://localhost:8765'', Write Stdout ''Connected to ws://localhost:8765.'',
        Write Stdout [LF], ThreadStart, Input ''> '', StopSet, CloseCall, IsSet True,
        Write Stdout ([CR, ESC] @ ''[K'' @ ''Connection closed: 1000 (OK) bye.'' @ [LF]),
        Flush Stdout, ThreadJoin]
   \<and> read_after_close False
       [Connect ''ws://localhost:8765'', Write Stdout ''Connected to ws://localhost:8765.'',
        Write Stdout [LF], ThreadStart, Input ''> '', StopSet, CloseCall, IsSet True,
        Write Stdout ([CR, ESC] @ ''[K'' @ ''Connection closed: 1000 (OK) bye.'' @ [LF]),
        Flush Stdout, ThreadJoin]
   \<and> set_before_close False
       [Connect ''ws://localhost:8765'', Write Stdout ''Connected to ws://localhost:8765.'',
        Write Stdout [LF], ThreadStart, Input ''> '', StopSet, CloseCall, IsSet True,
        Write Stdout ([CR, ESC] @ ''[K'' @ ''Connection closed: 1000 (OK) bye.'' @ [LF]),
        Flush Stdout, ThreadJoin]
   \<and> Kill SIGINT \<notin> set
       [Connect ''ws://localhost:8765'', Write Stdout ''Connected to ws://localhost:8765.'',
        Write Stdout [LF], ThreadStart, Input ''> '', StopSet, CloseCall, IsSet True,
        Write Stdout ([CR, ESC] @ ''[K'' @ ''Connection closed: 1000 (OK) bye.'' @ [LF]),
        Flush Stdout, ThreadJoin]"
proof -
  let ?zs = "[Connect ''ws://localhost:8765'', Write Stdout ''Connected to ws://localhost:8765.'',
    Write Stdout [LF], ThreadStart, Input ''> '', StopSet, CloseCall, IsSet True,
    Write Stdout ([CR, ESC] @ ''[K'' @ ''Connection closed: 1000 (OK) bye.'' @ [LF]),
    Flush Stdout, ThreadJoin]"
  have s: "show_int 1000 = ''1000''" by code_simp
  have tr: "fst (main scenario_args (scenario_env None [] (Some 1000) (Some ''bye''))) =
    [Connect ''ws://localhost:8765'', Write Stdout ''Connected to ws://localhost:8765.'',
     Write Stdout [LF], ThreadStart, Input ''> '', StopSet, CloseCall,
     Write Stdout ([CR, ESC] @ ''[K'' @ ''Connection closed: 1000 (OK) bye.'' @ [LF]),
     Flush Stdout, ThreadJoin]"
    by (simp add: main_def scenario_args_def scenario_env_def enable_vt100_def py_print_def
          except_block_def print_over_input_def Close_str_def close_explanation_def
          CLOSE_CODE_EXPLANATIONS_def s)
  have mem: "?zs \<in> shuffles
       (take 12 (fst (main scenario_args (scenario_env None [] (Some 1000) (Some ''bye'')))))
       (take 1 (fst (print_incoming_messages False [] None True)))"
    by (simp add: tr print_incoming_messages_def Cons_in_shuffles_iff)
  have rd: "reads_see_flag False ?zs \<and> read_after_close False ?zs" by simp
  show ?thesis
    using mem rd flag_set_before_close_in_every_interleaving [OF mem] by simp
qed

end
